theory Spec2Isabelle
  imports Complex_Main
begin

section \<open>Data model\<close>

text \<open>
  The orchestrator of skrobak (\<^verbatim>\<open>src/index.ts\<close>, \<^verbatim>\<open>src/utils/strategy.ts\<close>,
  \<^verbatim>\<open>src/utils/browser.ts\<close>) is asynchronous TypeScript. Every \<^verbatim>\<open>await\<close> is sequential,
  so an asynchronous function is embedded as a function from the state of the outside
  world \<open>'w\<close> to its outcome, the list of calls it made (its trace) and the new state
  of the world. A rejected promise or a \<^verbatim>\<open>throw\<close> is the outcome \<open>Inl\<close>, a fulfilled
  promise is \<open>Inr\<close>. JavaScript numbers are idealised: durations are \<open>real\<close>, the retry
  count and the attempt numbers are \<open>int\<close>, array indices, lengths and HTTP status codes
  are \<open>nat\<close>.
\<close>

subsection \<open>Values and errors\<close>

text \<open>A JavaScript value, as far as the orchestrator looks at one: it only tells
  \<^verbatim>\<open>null\<close> and \<^verbatim>\<open>undefined\<close> from everything else.\<close>

datatype jsvalue =
    Undefined
  | Null
  | Boolean bool
  | Number real
  | String string
  | Object nat

text \<open>
  The messages of the library are looked up in the table \<^verbatim>\<open>locales.json\<close>; a message
  is kept as its key in the table (\<^verbatim>\<open>locales.noStrategiesProvided\<close> is
  \<open>noStrategiesProvided\<close>), so two keys are two messages. Any other message is \<open>Text\<close>.
\<close>

datatype message =
    noStrategiesProvided
  | allStrategiesFailed
  | noResponseReceived
  | responseValidationFailed
  | customFetchNotProvided
  | customFetchNoResponse
  | Text string

text \<open>
  What can be thrown: \<^verbatim>\<open>new Error(message)\<close>, \<^verbatim>\<open>new HttpError(message, statusCode)\<close>
  (\<^verbatim>\<open>types/error.ts\<close>, used by \<^verbatim>\<open>instanceof HttpError\<close> and \<^verbatim>\<open>error.statusCode\<close>),
  or any other value (\<^verbatim>\<open>withRetry\<close> throws \<^verbatim>\<open>lastError\<close>, which starts as
  \<^verbatim>\<open>undefined\<close>).
\<close>

datatype error =
    Error message
  | HttpError string nat
  | Thrown jsvalue

text \<open>An asynchronous function: outcome, trace of calls, new world.\<close>

type_synonym ('w, 'ev, 'a) task = "'w \<Rightarrow> (error + 'a) \<times> 'ev list \<times> 'w"

subsection \<open>Configuration (\<^verbatim>\<open>types/options.ts\<close>, \<^verbatim>\<open>types/index.ts\<close>, \<^verbatim>\<open>types/browser.ts\<close>)\<close>

text \<open>\<^verbatim>\<open>RetryType\<close> is a string at run time; \<^verbatim>\<open>calculateRetryDelay\<close> has a
  \<^verbatim>\<open>default\<close> branch for the strings outside the type, so the field is a string.\<close>

record RetryConfig =
  count :: "int option"
  delay :: "real option"
  type :: "string option"
  statusCodes :: "nat list option"

datatype BrowserEngine = chromium | firefox | webkit

text \<open>
  The four values the code reads from the table \<^verbatim>\<open>defaults.json\<close>
  (\<^verbatim>\<open>defaults.retry.delay\<close>, \<^verbatim>\<open>defaults.retry.type\<close>, \<^verbatim>\<open>defaults.retry.statusCodes\<close>,
  \<^verbatim>\<open>defaults.browser.engine\<close>) are a parameter of the functions that read them, so that
  every property holds whatever the table says.
\<close>

record Defaults =
  retry_delay :: real
  retry_type :: string
  retry_statusCodes :: "nat list"
  browser_engine :: BrowserEngine

text \<open>\<^verbatim>\<open>StrategyMechanism = 'fetch' | 'browser' | 'custom'\<close>, capitalised here because
  \<open>browser\<close> and \<open>custom\<close> are also fields of the configuration.\<close>

datatype StrategyMechanism = Fetch | Browser | Custom

record ScrapeStrategy =
  mechanism :: StrategyMechanism
  useProxy :: "bool option"

record ViewportSize =
  width :: int
  height :: int

text \<open>\<^verbatim>\<open>ResourceType\<close> and \<^verbatim>\<open>WaitUntilType\<close> are strings that the orchestrator only passes on.\<close>

record BrowserConfig =
  engine :: "BrowserEngine option"
  resources :: "string list option"
  waitUntil :: "string option"

subsection \<open>Responses and results (\<^verbatim>\<open>types/result.ts\<close>, \<^verbatim>\<open>types/validate.ts\<close>)\<close>

text \<open>
  Of the \<^verbatim>\<open>Response\<close> of \<^verbatim>\<open>fetch\<close> the code reads \<^verbatim>\<open>status\<close> and
  \<^verbatim>\<open>clone().text()\<close>, a promise that may reject; of the response of Playwright only
  \<^verbatim>\<open>status()\<close>. A browser, a browsing context and a page are handles.
\<close>

record Response =
  status :: nat
  text_body :: "error + string"

datatype PlaywrightResponse = PlaywrightResponse nat

fun pw_status :: "PlaywrightResponse \<Rightarrow> nat" where
  "pw_status (PlaywrightResponse s) = s"

datatype BrowserInstance = BrowserInstance nat

datatype BrowserContext = BrowserContext nat

datatype Page = Page nat

datatype ValidateResponseContext =
    ValidateFetch Response
  | ValidateBrowser PlaywrightResponse
  | ValidateCustom jsvalue

text \<open>
  The three results. \<^verbatim>\<open>{mechanism: 'fetch', response, get $()}\<close>: the getter parses
  \<^verbatim>\<open>html\<close> on first use, so the result holds the response and \<^verbatim>\<open>html\<close>.
  \<^verbatim>\<open>{mechanism: 'browser', page, response, cleanup}\<close>: \<^verbatim>\<open>cleanup\<close> is the closure
  \<^verbatim>\<open>async () => await context.close()\<close>, held as the browsing context it closes.
  \<^verbatim>\<open>{mechanism: 'custom', response}\<close>.
\<close>

datatype Cleanup = CloseContext BrowserContext

datatype ScrapeResultFetch = ScrapeResultFetch Response string

datatype ScrapeResultBrowser = ScrapeResultBrowser Page PlaywrightResponse Cleanup

datatype ScrapeResultCustom = ScrapeResultCustom jsvalue

datatype ScrapeResult =
    ResultFetch ScrapeResultFetch
  | ResultBrowser ScrapeResultBrowser
  | ResultCustom ScrapeResultCustom

subsection \<open>Options\<close>

record ScrapeOptions =
  timeout :: "real option"
  retries :: "RetryConfig option"
  proxies :: "string list option"
  userAgents :: "string list option"
  viewports :: "ViewportSize list option"
  headers :: "(string \<times> string) list option"
  validateResponse :: "(ValidateResponseContext \<Rightarrow> bool) option"

text \<open>\<^verbatim>\<open>RequestOptions\<close>, fields in the order of the source:
  \<^verbatim>\<open>{proxy, userAgent, viewport, headers, timeout}\<close>.\<close>

datatype RequestOptions =
  RequestOptions "string option" "string option" "ViewportSize option"
    "(string \<times> string) list option" "real option"

fun proxy :: "RequestOptions \<Rightarrow> string option" where
  "proxy (RequestOptions p u v h t) = p"

fun userAgent :: "RequestOptions \<Rightarrow> string option" where
  "userAgent (RequestOptions p u v h t) = u"

fun viewport :: "RequestOptions \<Rightarrow> ViewportSize option" where
  "viewport (RequestOptions p u v h t) = v"

fun request_headers :: "RequestOptions \<Rightarrow> (string \<times> string) list option" where
  "request_headers (RequestOptions p u v h t) = h"

fun request_timeout :: "RequestOptions \<Rightarrow> real option" where
  "request_timeout (RequestOptions p u v h t) = t"

text \<open>\<^verbatim>\<open>BrowserContextOptions\<close> as \<^verbatim>\<open>createContext\<close> fills it:
  \<^verbatim>\<open>{proxy: {server}, userAgent, viewport}\<close>.\<close>

datatype BrowserContextOptions =
  BrowserContextOptions "string option" "string option" "ViewportSize option"

subsection \<open>Observer hooks (\<^verbatim>\<open>types/hooks.ts\<close>)\<close>

text \<open>The contexts handed to the hooks, fields in the order of the source:
  \<^verbatim>\<open>{error, attempt, maxAttempts, nextRetryDelay, retryConfig}\<close>,
  \<^verbatim>\<open>{error, totalAttempts, retryConfig}\<close>,
  \<^verbatim>\<open>{error, strategy, strategyIndex, totalStrategies}\<close>,
  \<^verbatim>\<open>{lastError, strategies, totalAttempts}\<close>.\<close>

datatype RetryAttemptContext = RetryAttemptContext error int int real RetryConfig

datatype RetryExhaustedContext = RetryExhaustedContext error int RetryConfig

datatype StrategyFailedContext = StrategyFailedContext error ScrapeStrategy nat nat

datatype AllStrategiesFailedContext = AllStrategiesFailedContext error "ScrapeStrategy list" nat

text \<open>
  A hook returns nothing (\<^verbatim>\<open>(context) => void\<close>): it may change the world, and is
  taken not to throw.
\<close>

record 'w ScrapeHooks =
  onRetryAttempt :: "(RetryAttemptContext \<Rightarrow> 'w \<Rightarrow> 'w) option"
  onRetryExhausted :: "(RetryExhaustedContext \<Rightarrow> 'w \<Rightarrow> 'w) option"
  onStrategyFailed :: "(StrategyFailedContext \<Rightarrow> 'w \<Rightarrow> 'w) option"
  onAllStrategiesFailed :: "(AllStrategiesFailedContext \<Rightarrow> 'w \<Rightarrow> 'w) option"

subsection \<open>Root configuration and the outside world\<close>

text \<open>
  The caller's retrieval function \<^verbatim>\<open>(url, options) => Promise<TCustomResponse>\<close>.
  The field \<open>custom\<close> of the configuration is \<^verbatim>\<open>config.custom?.fn\<close>: absent when
  \<^verbatim>\<open>custom\<close> or its \<^verbatim>\<open>fn\<close> is.
\<close>

type_synonym 'w CustomFetchFn = "string \<Rightarrow> RequestOptions \<Rightarrow> 'w \<Rightarrow> (error + jsvalue) \<times> 'w"

record 'w ScrapeConfig =
  options :: "ScrapeOptions option"
  browser :: "BrowserConfig option"
  custom :: "'w CustomFetchFn option"
  strategies :: "ScrapeStrategy list option"
  hooks :: "'w ScrapeHooks option"

text \<open>
  The collaborators the orchestrator calls, each a function of the world:
  \<^verbatim>\<open>Math.random()\<close>; \<^verbatim>\<open>fetch(url, composeFetchOptions(headers, signal, proxy))\<close>, where
  the headers, the abort signal and the proxy are all computed from the request options,
  so the transport receives the request options; \<^verbatim>\<open>getBrowser(engine)\<close> with its cache of launched browsers; and the methods
  of Playwright \<^verbatim>\<open>browser.newContext\<close>, \<^verbatim>\<open>context.newPage\<close>,
  \<^verbatim>\<open>page.setExtraHTTPHeaders\<close>, \<^verbatim>\<open>page.route\<close>, \<^verbatim>\<open>page.goto\<close> and
  \<^verbatim>\<open>context.close\<close>. \<^verbatim>\<open>fetch\<close> and \<^verbatim>\<open>page.goto\<close> may resolve to no response.
\<close>

record 'w Env =
  Math_random :: "'w \<Rightarrow> real \<times> 'w"
  global_fetch :: "string \<Rightarrow> RequestOptions \<Rightarrow> 'w \<Rightarrow> (error + Response option) \<times> 'w"
  getBrowser :: "BrowserEngine \<Rightarrow> 'w \<Rightarrow> (error + BrowserInstance) \<times> 'w"
  newContext :: "BrowserInstance \<Rightarrow> BrowserContextOptions \<Rightarrow> 'w \<Rightarrow> (error + BrowserContext) \<times> 'w"
  newPage :: "BrowserContext \<Rightarrow> 'w \<Rightarrow> (error + Page) \<times> 'w"
  setExtraHTTPHeaders :: "Page \<Rightarrow> (string \<times> string) list \<Rightarrow> 'w \<Rightarrow> (error + unit) \<times> 'w"
  route :: "Page \<Rightarrow> string list \<Rightarrow> 'w \<Rightarrow> (error + unit) \<times> 'w"
  goto :: "Page \<Rightarrow> string \<Rightarrow> string option \<Rightarrow> real option \<Rightarrow> 'w \<Rightarrow>
           (error + PlaywrightResponse option) \<times> 'w"
  close :: "BrowserContext \<Rightarrow> 'w \<Rightarrow> (error + unit) \<times> 'w"

text \<open>
  The trace of a mechanism executor: the calls it made to the collaborators.
  \<open>NewContext c\<close>: \<^verbatim>\<open>browser.newContext\<close> returned the context \<open>c\<close>, which is now open.
  \<open>ContextClose c\<close>: \<^verbatim>\<open>c.close()\<close> was called.
\<close>

datatype call =
    FetchCall string RequestOptions
  | GetBrowser BrowserEngine
  | NewContext BrowserContext
  | NewPage Page
  | Goto Page string
  | ContextClose BrowserContext
  | CustomCall string RequestOptions

section \<open>Backoff calculator\<close>

text \<open>\<^verbatim>\<open>calculateRetryDelay\<close>: a \<^verbatim>\<open>switch\<close> on the string \<^verbatim>\<open>retryType\<close>.\<close>

definition calculateRetryDelay :: "int \<Rightarrow> real \<Rightarrow> string \<Rightarrow> real" where
  "calculateRetryDelay attempt baseDelay retryType =
     (if retryType = ''exponential'' then baseDelay * 2 powi attempt
      else if retryType = ''linear'' then baseDelay * (of_int attempt + 1)
      else if retryType = ''constant'' then baseDelay
      else baseDelay * 2 powi attempt)"

section \<open>Retry wrapper\<close>

text \<open>
  The trace of \<^verbatim>\<open>withRetry\<close>: each call \<^verbatim>\<open>fn()\<close> with its outcome and the trace of
  the action itself, each hook that was registered and called with its context, each
  \<^verbatim>\<open>sleep(retryDelay)\<close>.
\<close>

datatype ('a, 'ev) retry_event =
    Invoked "error + 'a" "'ev list"
  | OnRetryAttempt RetryAttemptContext
  | Slept real
  | OnRetryExhausted RetryExhaustedContext

text \<open>
  \<open>callHook hooks' sel ctx ev\<close> is \<^verbatim>\<open>hooks?.sel?.(ctx)\<close>: both the \<^verbatim>\<open>hooks\<close> object and
  its field are optional. The call is traced as \<open>ev ctx\<close> when it happens.
\<close>

definition callHook ::
  "'h option \<Rightarrow> ('h \<Rightarrow> ('c \<Rightarrow> 'w \<Rightarrow> 'w) option) \<Rightarrow> 'c \<Rightarrow> ('c \<Rightarrow> 'e) \<Rightarrow> 'w \<Rightarrow> 'e list \<times> 'w" where
  "callHook hooks' sel ctx ev w =
     (case hooks' of
        None \<Rightarrow> ([], w)
      | Some h \<Rightarrow> (case sel h of None \<Rightarrow> ([], w) | Some f \<Rightarrow> ([ev ctx], f ctx w)))"

text \<open>
  Lines 180 to 184 of \<^verbatim>\<open>withRetry\<close>: the error is an \<^verbatim>\<open>HttpError\<close> and
  \<^verbatim>\<open>retriableStatusCodes.includes(error.statusCode)\<close> is false.
\<close>

fun nonRetriable :: "nat list \<Rightarrow> error \<Rightarrow> bool" where
  "nonRetriable retriableStatusCodes (HttpError m statusCode) =
     (statusCode \<notin> set retriableStatusCodes)"
| "nonRetriable retriableStatusCodes _ = False"

text \<open>
  The \<^verbatim>\<open>for\<close> loop of \<^verbatim>\<open>withRetry\<close> from \<^verbatim>\<open>attempt\<close> on, with the code after it
  (the \<open>else\<close> branch). \<open>cnt\<close> is \<^verbatim>\<open>retryConfig.count\<close>. Here and below, a variable
  of the source that has the name of a field of a record is written with a prime
  (\<open>delay'\<close>, \<open>type'\<close>, \<open>hooks'\<close>, \<open>options'\<close>).
\<close>

function withRetry_loop ::
  "('w, 'ev, 'a) task \<Rightarrow> RetryConfig \<Rightarrow> 'w ScrapeHooks option \<Rightarrow> int \<Rightarrow> real \<Rightarrow> string \<Rightarrow>
   nat list \<Rightarrow> int \<Rightarrow> error \<Rightarrow> ('w, ('a, 'ev) retry_event, 'a) task" where
  "withRetry_loop fn retryConfig hooks' cnt delay' type' retriableStatusCodes attempt lastError w =
     (if attempt \<le> cnt then
        (case fn w of
           (Inr v, evs, w1) \<Rightarrow> (Inr v, [Invoked (Inr v) evs], w1)
         | (Inl error, evs, w1) \<Rightarrow>
             if nonRetriable retriableStatusCodes error then
               (Inl error, [Invoked (Inl error) evs], w1)
             else if attempt < cnt then
               (let retryDelay = calculateRetryDelay attempt delay' type';
                    (hev, w2) = callHook hooks' onRetryAttempt
                      (RetryAttemptContext error (attempt + 1) (cnt + 1) retryDelay retryConfig)
                      OnRetryAttempt w1;
                    (r, tr, w3) = withRetry_loop fn retryConfig hooks' cnt delay' type'
                      retriableStatusCodes (attempt + 1) error w2
                in (r, Invoked (Inl error) evs # hev @ Slept retryDelay # tr, w3))
             else
               (let (r, tr, w3) = withRetry_loop fn retryConfig hooks' cnt delay' type'
                      retriableStatusCodes (attempt + 1) error w1
                in (r, Invoked (Inl error) evs # tr, w3)))
      else
        (let (hev, w1) = callHook hooks' onRetryExhausted
               (RetryExhaustedContext lastError (cnt + 1) retryConfig) OnRetryExhausted w
         in (Inl lastError, hev, w1)))"
  by pat_completeness auto
termination
  by (relation "measure (\<lambda>(fn, retryConfig, hooks', cnt, delay', type', codes, attempt, lastError, w).
        nat (cnt + 1 - attempt))") auto

declare withRetry_loop.simps [simp del]

text \<open>The constant \<^verbatim>\<open>retriableStatusCodes\<close> of \<^verbatim>\<open>withRetry\<close>:
  \<^verbatim>\<open>retryConfig.statusCodes ?? defaults.retry.statusCodes\<close>.\<close>

definition retriableStatusCodes :: "Defaults \<Rightarrow> RetryConfig \<Rightarrow> nat list" where
  "retriableStatusCodes defaults retryConfig =
     (case statusCodes retryConfig of Some c \<Rightarrow> c | None \<Rightarrow> retry_statusCodes defaults)"

text \<open>
  \<^verbatim>\<open>withRetry\<close>. \<^verbatim>\<open>!retryConfig?.count\<close> holds when the configuration or its count is
  absent, or the count is 0: then \<^verbatim>\<open>return fn()\<close>. \<^verbatim>\<open>??\<close> replaces an absent field
  by the default.
\<close>

definition withRetry ::
  "Defaults \<Rightarrow> ('w, 'ev, 'a) task \<Rightarrow> RetryConfig option \<Rightarrow> 'w ScrapeHooks option \<Rightarrow>
   ('w, ('a, 'ev) retry_event, 'a) task" where
  "withRetry defaults fn retryConfig hooks' w =
     (case retryConfig of
        None \<Rightarrow> (case fn w of (r, evs, w1) \<Rightarrow> (r, [Invoked r evs], w1))
      | Some rc \<Rightarrow>
          (case count rc of
             None \<Rightarrow> (case fn w of (r, evs, w1) \<Rightarrow> (r, [Invoked r evs], w1))
           | Some cnt \<Rightarrow>
               if cnt = 0 then (case fn w of (r, evs, w1) \<Rightarrow> (r, [Invoked r evs], w1))
               else
                 withRetry_loop fn rc hooks' cnt
                   (case delay rc of Some d \<Rightarrow> d | None \<Rightarrow> retry_delay defaults)
                   (case type rc of Some t \<Rightarrow> t | None \<Rightarrow> retry_type defaults)
                   (retriableStatusCodes defaults rc)
                   0 (Thrown Undefined) w))"

section \<open>Pool selector\<close>

text \<open>
  \<^verbatim>\<open>getRandomFrom\<close>. \<^verbatim>\<open>Math.random()\<close> is called only past the first \<^verbatim>\<open>return\<close>.
  An index outside the array reads \<^verbatim>\<open>undefined\<close> in JavaScript, here \<open>None\<close>.
\<close>

definition getRandomFrom :: "'w Env \<Rightarrow> 'a list option \<Rightarrow> 'w \<Rightarrow> 'a option \<times> 'w" where
  "getRandomFrom E items w =
     (case items of
        None \<Rightarrow> (None, w)
      | Some xs \<Rightarrow>
          if length xs = 0 then (None, w)
          else
            (case Math_random E w of
               (r, w1) \<Rightarrow>
                 (let i = \<lfloor>r * real (length xs)\<rfloor>
                  in (if 0 \<le> i \<and> i < int (length xs) then Some (xs ! nat i) else None, w1))))"

section \<open>Mechanism executors\<close>

text \<open>\<^verbatim>\<open>config.options?.validateResponse\<close> applied to a context; with no validator the
  two \<^verbatim>\<open>if\<close> around the \<^verbatim>\<open>throw\<close> are skipped. The validator returns a boolean and is
  taken not to throw.\<close>

definition validationFails :: "'w ScrapeConfig \<Rightarrow> ValidateResponseContext \<Rightarrow> bool" where
  "validationFails config ctx =
     (case Option.bind (options config) validateResponse of
        None \<Rightarrow> False
      | Some validate \<Rightarrow> \<not> validate ctx)"

text \<open>\<^verbatim>\<open>executeFetchMechanism\<close>.\<close>

definition executeFetchMechanism ::
  "'w Env \<Rightarrow> string \<Rightarrow> 'w ScrapeConfig \<Rightarrow> RequestOptions \<Rightarrow> ('w, call, ScrapeResultFetch) task" where
  "executeFetchMechanism E url config options' w =
     (case global_fetch E url options' w of
        (Inl error, w1) \<Rightarrow> (Inl error, [FetchCall url options'], w1)
      | (Inr None, w1) \<Rightarrow> (Inl (Error noResponseReceived), [FetchCall url options'], w1)
      | (Inr (Some response), w1) \<Rightarrow>
          if validationFails config (ValidateFetch response) then
            (Inl (Error responseValidationFailed), [FetchCall url options'], w1)
          else
            (case text_body response of
               Inl error \<Rightarrow> (Inl error, [FetchCall url options'], w1)
             | Inr html \<Rightarrow>
                 (Inr (ScrapeResultFetch response html), [FetchCall url options'], w1)))"

text \<open>\<^verbatim>\<open>createContext\<close> (\<^verbatim>\<open>utils/browser.ts\<close>): an empty string is falsy, so
  \<^verbatim>\<open>if (options.proxy)\<close> and \<^verbatim>\<open>if (options.userAgent)\<close> skip it.\<close>

definition truthy_string :: "string option \<Rightarrow> string option" where
  "truthy_string s = (case s of None \<Rightarrow> None | Some x \<Rightarrow> if x = [] then None else Some x)"

definition createContext ::
  "'w Env \<Rightarrow> BrowserInstance \<Rightarrow> RequestOptions \<Rightarrow> 'w \<Rightarrow> (error + BrowserContext) \<times> 'w" where
  "createContext E browser' options' w =
     newContext E browser'
       (BrowserContextOptions (truthy_string (proxy options')) (truthy_string (userAgent options'))
          (viewport options')) w"

text \<open>\<^verbatim>\<open>createPage\<close> with \<^verbatim>\<open>allowListedResources\<close>, which is one call of
  \<^verbatim>\<open>page.route\<close>.\<close>

definition createPage ::
  "'w Env \<Rightarrow> BrowserContext \<Rightarrow> BrowserConfig \<Rightarrow> RequestOptions \<Rightarrow> ('w, call, Page) task" where
  "createPage E browserOrContext config requestOptions w =
     (case newPage E browserOrContext w of
        (Inl error, w1) \<Rightarrow> (Inl error, [], w1)
      | (Inr page, w1) \<Rightarrow>
          (case (case request_headers requestOptions of
                   None \<Rightarrow> (Inr (), w1)
                 | Some h \<Rightarrow> setExtraHTTPHeaders E page h w1) of
             (Inl error, w2) \<Rightarrow> (Inl error, [NewPage page], w2)
           | (Inr u, w2) \<Rightarrow>
               (case (case resources config of
                        None \<Rightarrow> (Inr (), w2)
                      | Some rs \<Rightarrow> if length rs = 0 then (Inr (), w2) else route E page rs w2) of
                  (Inl error, w3) \<Rightarrow> (Inl error, [NewPage page], w3)
                | (Inr u', w3) \<Rightarrow> (Inr page, [NewPage page], w3))))"

text \<open>The \<^verbatim>\<open>try\<close> block of \<^verbatim>\<open>executeBrowserMechanism\<close>, lines 263 to 284.\<close>

definition executeBrowserMechanism_try ::
  "'w Env \<Rightarrow> string \<Rightarrow> 'w ScrapeConfig \<Rightarrow> BrowserConfig \<Rightarrow> RequestOptions \<Rightarrow> BrowserContext \<Rightarrow>
   ('w, call, ScrapeResultBrowser) task" where
  "executeBrowserMechanism_try E url config browserConfig options' ctx w =
     (case createPage E ctx browserConfig options' w of
        (Inl error, tr, w1) \<Rightarrow> (Inl error, tr, w1)
      | (Inr page, tr, w1) \<Rightarrow>
          (case goto E page url (waitUntil browserConfig) (request_timeout options') w1 of
             (Inl error, w2) \<Rightarrow> (Inl error, tr @ [Goto page url], w2)
           | (Inr None, w2) \<Rightarrow> (Inl (Error noResponseReceived), tr @ [Goto page url], w2)
           | (Inr (Some response), w2) \<Rightarrow>
               if validationFails config (ValidateBrowser response) then
                 (Inl (Error responseValidationFailed), tr @ [Goto page url], w2)
               else
                 (Inr (ScrapeResultBrowser page response (CloseContext ctx)),
                  tr @ [Goto page url], w2)))"

text \<open>
  \<^verbatim>\<open>executeBrowserMechanism\<close>: \<^verbatim>\<open>getBrowser\<close> and \<^verbatim>\<open>createContext\<close> are before the
  \<^verbatim>\<open>try\<close>; the \<^verbatim>\<open>catch\<close> awaits \<^verbatim>\<open>context.close()\<close>, which may itself reject, and
  then throws the error it caught.
\<close>

definition executeBrowserMechanism ::
  "'w Env \<Rightarrow> Defaults \<Rightarrow> string \<Rightarrow> 'w ScrapeConfig \<Rightarrow> RequestOptions \<Rightarrow>
   ('w, call, ScrapeResultBrowser) task" where
  "executeBrowserMechanism E defaults url config options' w =
     (let browserConfig =
            (case browser config of
               Some b \<Rightarrow> b
             | None \<Rightarrow> \<lparr>engine = None, resources = None, waitUntil = None\<rparr>);
          engine' = (case engine browserConfig of Some e \<Rightarrow> e | None \<Rightarrow> browser_engine defaults)
      in case getBrowser E engine' w of
           (Inl error, w1) \<Rightarrow> (Inl error, [GetBrowser engine'], w1)
         | (Inr browser', w1) \<Rightarrow>
             (case createContext E browser' options' w1 of
                (Inl error, w2) \<Rightarrow> (Inl error, [GetBrowser engine'], w2)
              | (Inr ctx, w2) \<Rightarrow>
                  (case executeBrowserMechanism_try E url config browserConfig options' ctx w2 of
                     (Inr result, tr, w3) \<Rightarrow>
                       (Inr result, GetBrowser engine' # NewContext ctx # tr, w3)
                   | (Inl error, tr, w3) \<Rightarrow>
                       (case close E ctx w3 of
                          (Inl error', w4) \<Rightarrow>
                            (Inl error',
                             GetBrowser engine' # NewContext ctx # tr @ [ContextClose ctx], w4)
                        | (Inr u, w4) \<Rightarrow>
                            (Inl error,
                             GetBrowser engine' # NewContext ctx # tr @ [ContextClose ctx], w4)))))"


text \<open>\<^verbatim>\<open>executeCustomMechanism\<close>.\<close>

definition executeCustomMechanism ::
  "string \<Rightarrow> 'w ScrapeConfig \<Rightarrow> RequestOptions \<Rightarrow> ('w, call, ScrapeResultCustom) task" where
  "executeCustomMechanism url config options' w =
     (case custom config of
        None \<Rightarrow> (Inl (Error customFetchNotProvided), [], w)
      | Some fn \<Rightarrow>
          (case fn url options' w of
             (Inl error, w1) \<Rightarrow> (Inl error, [CustomCall url options'], w1)
           | (Inr response, w1) \<Rightarrow>
               if response = Null \<or> response = Undefined then
                 (Inl (Error customFetchNoResponse), [CustomCall url options'], w1)
               else if validationFails config (ValidateCustom response) then
                 (Inl (Error responseValidationFailed), [CustomCall url options'], w1)
               else
                 (Inr (ScrapeResultCustom response), [CustomCall url options'], w1)))"

text \<open>The decimal digits of a status code, for the message \<^verbatim>\<open>`HTTP error ${status}`\<close>.\<close>

fun string_of_nat :: "nat \<Rightarrow> string" where
  "string_of_nat n =
     (if n < 10 then [''0123456789'' ! n]
      else string_of_nat (n div 10) @ [''0123456789'' ! (n mod 10)])"

declare string_of_nat.simps [simp del]

text \<open>Lines 339 to 343 of \<^verbatim>\<open>executeMechanism\<close>: the check of \<^verbatim>\<open>status\<close>, which is
  \<^verbatim>\<open>undefined\<close> for the custom mechanism.\<close>

definition checkStatus :: "nat option \<Rightarrow> ScrapeResult \<Rightarrow> error + ScrapeResult" where
  "checkStatus status' result =
     (case status' of
        None \<Rightarrow> Inr result
      | Some s \<Rightarrow>
          if s < 200 \<or> s \<ge> 300 then Inl (HttpError (''HTTP error '' @ string_of_nat s) s)
          else Inr result)"

text \<open>\<^verbatim>\<open>executeMechanism\<close>: the \<^verbatim>\<open>switch\<close> on \<^verbatim>\<open>strategy.mechanism\<close>, then the check.\<close>

definition executeMechanism ::
  "'w Env \<Rightarrow> Defaults \<Rightarrow> string \<Rightarrow> 'w ScrapeConfig \<Rightarrow> ScrapeStrategy \<Rightarrow> RequestOptions \<Rightarrow>
   ('w, call, ScrapeResult) task" where
  "executeMechanism E defaults url config strategy options' w =
     (case mechanism strategy of
        Fetch \<Rightarrow>
          (case executeFetchMechanism E url config options' w of
             (Inl error, tr, w1) \<Rightarrow> (Inl error, tr, w1)
           | (Inr (ScrapeResultFetch response html), tr, w1) \<Rightarrow>
               (checkStatus (Some (status response))
                  (ResultFetch (ScrapeResultFetch response html)), tr, w1))
      | Browser \<Rightarrow>
          (case executeBrowserMechanism E defaults url config options' w of
             (Inl error, tr, w1) \<Rightarrow> (Inl error, tr, w1)
           | (Inr (ScrapeResultBrowser page response cleanup), tr, w1) \<Rightarrow>
               (checkStatus (Some (pw_status response))
                  (ResultBrowser (ScrapeResultBrowser page response cleanup)), tr, w1))
      | Custom \<Rightarrow>
          (case executeCustomMechanism url config options' w of
             (Inl error, tr, w1) \<Rightarrow> (Inl error, tr, w1)
           | (Inr result, tr, w1) \<Rightarrow> (checkStatus None (ResultCustom result), tr, w1)))"

section \<open>Strategy executor\<close>

text \<open>
  \<^verbatim>\<open>executeStrategy\<close>: the request options are computed once, in the order of the
  object literal, and the same options serve every attempt of \<^verbatim>\<open>withRetry\<close>.
  \<^verbatim>\<open>config.options?.f\<close> is \<open>Option.bind (options config) f\<close>.
\<close>

definition executeStrategy ::
  "'w Env \<Rightarrow> Defaults \<Rightarrow> string \<Rightarrow> 'w ScrapeConfig \<Rightarrow> ScrapeStrategy \<Rightarrow>
   ('w, (ScrapeResult, call) retry_event, ScrapeResult) task" where
  "executeStrategy E defaults url config strategy w =
     (case (if useProxy strategy = Some True
            then getRandomFrom E (Option.bind (options config) proxies) w
            else (None, w)) of
        (proxy', w1) \<Rightarrow>
          (case getRandomFrom E (Option.bind (options config) userAgents) w1 of
             (userAgent', w2) \<Rightarrow>
               (case getRandomFrom E (Option.bind (options config) viewports) w2 of
                  (viewport', w3) \<Rightarrow>
                    (let options' = RequestOptions proxy' userAgent' viewport'
                           (Option.bind (options config) headers)
                           (Option.bind (options config) timeout)
                     in withRetry defaults (executeMechanism E defaults url config strategy options')
                          (Option.bind (options config) retries) (hooks config) w3))))"

section \<open>Cascade orchestrator\<close>

text \<open>
  The trace of \<^verbatim>\<open>scrape\<close>: each call of \<^verbatim>\<open>executeStrategy\<close> with the index and the
  strategy of the loop, its outcome and its own trace, and each hook called.
\<close>

datatype scrape_event =
    Executed nat ScrapeStrategy "error + ScrapeResult" "(ScrapeResult, call) retry_event list"
  | OnStrategyFailed StrategyFailedContext
  | OnAllStrategiesFailed AllStrategiesFailedContext

text \<open>
  The \<^verbatim>\<open>for\<close> loop of \<^verbatim>\<open>scrape\<close> over the entries that remain, the first of them at
  \<open>index\<close>, with the \<^verbatim>\<open>throw\<close> that follows the loop.
\<close>

fun scrape_loop ::
  "'w Env \<Rightarrow> Defaults \<Rightarrow> string \<Rightarrow> 'w ScrapeConfig \<Rightarrow> ScrapeStrategy list \<Rightarrow> nat \<Rightarrow>
   ScrapeStrategy list \<Rightarrow> ('w, scrape_event, ScrapeResult) task" where
  "scrape_loop E defaults url config strategies' index [] w =
     (Inl (Error allStrategiesFailed), [], w)"
| "scrape_loop E defaults url config strategies' index (strategy # rest) w =
     (case executeStrategy E defaults url config strategy w of
        (Inr result, tr, w1) \<Rightarrow> (Inr result, [Executed index strategy (Inr result) tr], w1)
      | (Inl error, tr, w1) \<Rightarrow>
          (case callHook (hooks config) onStrategyFailed
                  (StrategyFailedContext error strategy index (length strategies'))
                  OnStrategyFailed w1 of
             (hev, w2) \<Rightarrow>
               if index = length strategies' - 1 then
                 (case callHook (hooks config) onAllStrategiesFailed
                         (AllStrategiesFailedContext error strategies' (length strategies'))
                         OnAllStrategiesFailed w2 of
                    (hev', w3) \<Rightarrow>
                      (Inl error, Executed index strategy (Inl error) tr # hev @ hev', w3))
               else
                 (case scrape_loop E defaults url config strategies' (index + 1) rest w2 of
                    (r, tr', w3) \<Rightarrow>
                      (r, Executed index strategy (Inl error) tr # hev @ tr', w3))))"

text \<open>\<^verbatim>\<open>scrape\<close>: \<^verbatim>\<open>!strategies?.length\<close> holds for an absent and for an empty list.\<close>

definition scrape ::
  "'w Env \<Rightarrow> Defaults \<Rightarrow> string \<Rightarrow> 'w ScrapeConfig \<Rightarrow> ('w, scrape_event, ScrapeResult) task" where
  "scrape E defaults url config w =
     (case strategies config of
        None \<Rightarrow> (Inl (Error noStrategiesProvided), [], w)
      | Some strategies' \<Rightarrow>
          if length strategies' = 0 then (Inl (Error noStrategiesProvided), [], w)
          else scrape_loop E defaults url config strategies' 0 strategies' w)"

section \<open>Reading a trace\<close>

text \<open>The outcomes of the calls \<^verbatim>\<open>fn()\<close> in a trace of \<^verbatim>\<open>withRetry\<close>, in order, and
  the contexts of its calls of \<^verbatim>\<open>onRetryExhausted\<close>.\<close>

fun invocations :: "('a, 'ev) retry_event list \<Rightarrow> (error + 'a) list" where
  "invocations [] = []"
| "invocations (Invoked r evs # tr) = r # invocations tr"
| "invocations (e # tr) = invocations tr"

fun exhaustions :: "('a, 'ev) retry_event list \<Rightarrow> RetryExhaustedContext list" where
  "exhaustions [] = []"
| "exhaustions (OnRetryExhausted c # tr) = c # exhaustions tr"
| "exhaustions (e # tr) = exhaustions tr"

text \<open>An outcome after which \<^verbatim>\<open>withRetry\<close> goes on if attempts remain: a failure that is
  not a status-carrying one outside the retriable set.\<close>

fun retriableFailure :: "nat list \<Rightarrow> error + 'a \<Rightarrow> bool" where
  "retriableFailure codes (Inl e) = (\<not> nonRetriable codes e)"
| "retriableFailure codes (Inr v) = False"

text \<open>The calls of \<^verbatim>\<open>onRetryExhausted\<close> expected after a last outcome: one, with the
  error, \<^verbatim>\<open>retryConfig.count + 1\<close> and the configuration, when the hook is registered.\<close>

definition exhausted_calls ::
  "'w ScrapeHooks option \<Rightarrow> RetryConfig \<Rightarrow> int \<Rightarrow> error + 'a \<Rightarrow> RetryExhaustedContext list" where
  "exhausted_calls hooks' rc cnt x =
     (case (Option.bind hooks' onRetryExhausted, x) of
        (Some f, Inl e) \<Rightarrow> [RetryExhaustedContext e (cnt + 1) rc]
      | _ \<Rightarrow> [])"





text \<open>The HTTP status a result carries: none for a custom result.\<close>

fun status_of :: "ScrapeResult \<Rightarrow> nat option" where
  "status_of (ResultFetch (ScrapeResultFetch response html)) = Some (status response)"
| "status_of (ResultBrowser (ScrapeResultBrowser page response cleanup)) = Some (pw_status response)"
| "status_of (ResultCustom result) = None"

section \<open>Example inputs\<close>

text \<open>Defaults as the README documents them (delay 5000, exponential, chromium), with
  a set of retriable status codes chosen for the examples.\<close>

definition example_defaults :: Defaults where
  "example_defaults =
     \<lparr>retry_delay = 5000, retry_type = ''exponential'',
      retry_statusCodes = [408, 429, 500, 502, 503, 504], browser_engine = chromium\<rparr>"

text \<open>An action that plays a script: the world is the number of calls made so far, and
  call number \<open>w\<close> has outcome number \<open>w\<close> of the script, a failure once the script has
  ended.\<close>

definition scripted :: "(error + 'a) list \<Rightarrow> (nat, call, 'a) task" where
  "scripted outcomes w =
     (if w < length outcomes then outcomes ! w else Inl (Error (Text ''script ended'')), [], Suc w)"

text \<open>All four hooks registered, none touching the world.\<close>

definition silent_hooks :: "nat ScrapeHooks" where
  "silent_hooks =
     \<lparr>onRetryAttempt = Some (\<lambda>c w. w), onRetryExhausted = Some (\<lambda>c w. w),
      onStrategyFailed = Some (\<lambda>c w. w), onAllStrategiesFailed = Some (\<lambda>c w. w)\<rparr>"



definition retry_thrice :: RetryConfig where
  "retry_thrice = \<lparr>count = Some 3, delay = Some 1000, type = Some ''linear'', statusCodes = None\<rparr>"




definition forbidden_first :: "(nat, call, jsvalue) task" where
  "forbidden_first = scripted [Inl (HttpError ''HTTP error 403'' 403), Inr (String ''page'')]"

text \<open>A world that counts the calls made to it. \<^verbatim>\<open>Math.random()\<close> returns a fixed
  number, \<^verbatim>\<open>fetch\<close> and \<^verbatim>\<open>page.goto\<close> have an outcome per URL, and the other calls of
  Playwright succeed; a new context or page is numbered by the count.\<close>

definition example_env ::
  "real \<Rightarrow> (string \<Rightarrow> error + Response option) \<Rightarrow> (string \<Rightarrow> error + PlaywrightResponse option) \<Rightarrow>
   nat Env" where
  "example_env random_value fetch_outcome goto_outcome =
     \<lparr>Math_random = (\<lambda>w. (random_value, Suc w)),
      global_fetch = (\<lambda>url options' w. (fetch_outcome url, Suc w)),
      getBrowser = (\<lambda>engine' w. (Inr (BrowserInstance 0), Suc w)),
      newContext = (\<lambda>browser' contextOptions w. (Inr (BrowserContext w), Suc w)),
      newPage = (\<lambda>ctx w. (Inr (Page w), Suc w)),
      setExtraHTTPHeaders = (\<lambda>page h w. (Inr (), Suc w)),
      route = (\<lambda>page rs w. (Inr (), Suc w)),
      goto = (\<lambda>page url waitUntil' timeout' w. (goto_outcome url, Suc w)),
      close = (\<lambda>ctx w. (Inr (), Suc w))\<rparr>"

definition no_options :: RequestOptions where
  "no_options = RequestOptions None None None None None"


text \<open>A retrieval function that returns a given value.\<close>

definition returns :: "jsvalue \<Rightarrow> nat CustomFetchFn" where
  "returns v url options' w = (Inr v, Suc w)"

definition offline :: "nat Env" where
  "offline =
     example_env (1 / 2) (\<lambda>url. Inl (Error (Text ''offline''))) (\<lambda>url. Inl (Error (Text ''offline'')))"

definition custom_strategy :: ScrapeStrategy where
  "custom_strategy = \<lparr>mechanism = Custom, useProxy = None\<rparr>"

definition three_items :: "string list" where
  "three_items = [''a'', ''b'', ''c'']"

text \<open>A site that answers 200 at one URL and 404 everywhere else, to \<^verbatim>\<open>fetch\<close> and to
  the browser alike.\<close>

definition site_status :: "string \<Rightarrow> nat" where
  "site_status url = (if url = ''https://example.com/ok'' then 200 else 404)"

definition example_site :: "nat Env" where
  "example_site =
     example_env (1 / 2)
       (\<lambda>url. Inr (Some \<lparr>status = site_status url, text_body = Inr ''<html></html>''\<rparr>))
       (\<lambda>url. Inr (Some (PlaywrightResponse (site_status url))))"


text \<open>A configuration with all hooks registered and no pools, headers or timeout.\<close>

definition example_config ::
  "ScrapeStrategy list \<Rightarrow> (ValidateResponseContext \<Rightarrow> bool) option \<Rightarrow> RetryConfig option \<Rightarrow>
   nat CustomFetchFn option \<Rightarrow> nat ScrapeConfig" where
  "example_config strategies' validate retryConfig fn =
     \<lparr>options = Some \<lparr>timeout = None, retries = retryConfig, proxies = None, userAgents = None,
                       viewports = None, headers = None, validateResponse = validate\<rparr>,
      browser = None, custom = fn, strategies = Some strategies', hooks = Some silent_hooks\<rparr>"

definition fetch_strategy :: ScrapeStrategy where
  "fetch_strategy = \<lparr>mechanism = Fetch, useProxy = None\<rparr>"

definition browser_strategy :: ScrapeStrategy where
  "browser_strategy = \<lparr>mechanism = Browser, useProxy = None\<rparr>"




section \<open>Properties of the backoff calculator\<close>



section \<open>Properties of the retry wrapper\<close>

subsection \<open>One step of the loop\<close>

lemma invocations_append: "invocations (xs @ ys) = invocations xs @ invocations ys"
  by (induction xs rule: invocations.induct) auto

lemma exhaustions_append: "exhaustions (xs @ ys) = exhaustions xs @ exhaustions ys"
  by (induction xs rule: exhaustions.induct) auto

lemma callHook_cases:
  "callHook h sel c ev w = (hev, w1) \<Longrightarrow>
     (Option.bind h sel = None \<and> hev = [] \<and> w1 = w) \<or>
     (\<exists>f. Option.bind h sel = Some f \<and> hev = [ev c] \<and> w1 = f c w)"
  by (auto simp: callHook_def split: option.splits)

lemma loop_exit:
  "\<not> attempt \<le> cnt \<Longrightarrow>
   withRetry_loop fn rc h cnt d t codes attempt lastError w =
     (case callHook h onRetryExhausted (RetryExhaustedContext lastError (cnt + 1) rc)
             OnRetryExhausted w of
        (hev, w1) \<Rightarrow> (Inl lastError, hev, w1))"
  by (subst withRetry_loop.simps) simp

lemma loop_success:
  "attempt \<le> cnt \<Longrightarrow> fn w = (Inr v, evs, w1) \<Longrightarrow>
   withRetry_loop fn rc h cnt d t codes attempt lastError w = (Inr v, [Invoked (Inr v) evs], w1)"
  by (subst withRetry_loop.simps) simp

lemma loop_abort:
  "attempt \<le> cnt \<Longrightarrow> fn w = (Inl e, evs, w1) \<Longrightarrow> nonRetriable codes e \<Longrightarrow>
   withRetry_loop fn rc h cnt d t codes attempt lastError w = (Inl e, [Invoked (Inl e) evs], w1)"
  by (subst withRetry_loop.simps) simp

lemma loop_retry:
  "attempt < cnt \<Longrightarrow> fn w = (Inl e, evs, w1) \<Longrightarrow> \<not> nonRetriable codes e \<Longrightarrow>
   withRetry_loop fn rc h cnt d t codes attempt lastError w =
     (case callHook h onRetryAttempt
             (RetryAttemptContext e (attempt + 1) (cnt + 1) (calculateRetryDelay attempt d t) rc)
             OnRetryAttempt w1 of
        (hev, w2) \<Rightarrow>
          (case withRetry_loop fn rc h cnt d t codes (attempt + 1) e w2 of
             (r, tr, w3) \<Rightarrow>
               (r, Invoked (Inl e) evs # hev @ Slept (calculateRetryDelay attempt d t) # tr, w3)))"
  by (subst withRetry_loop.simps) (simp add: Let_def split: prod.splits)

lemma loop_last:
  "attempt = cnt \<Longrightarrow> fn w = (Inl e, evs, w1) \<Longrightarrow> \<not> nonRetriable codes e \<Longrightarrow>
   withRetry_loop fn rc h cnt d t codes attempt lastError w =
     (case callHook h onRetryExhausted (RetryExhaustedContext e (cnt + 1) rc)
             OnRetryExhausted w1 of
        (hev, w2) \<Rightarrow> (Inl e, Invoked (Inl e) evs # hev, w2))"
  by (subst withRetry_loop.simps) (simp add: Let_def loop_exit split: prod.splits)

lemma loop_shape:
  assumes "attempt \<le> cnt"
    and "withRetry_loop (fn :: ('w, 'ev, 'a) task) rc h cnt d t codes attempt lastError w = (r, tr, w')"
  shows "invocations tr \<noteq> [] \<and> int (length (invocations tr)) \<le> cnt + 1 - attempt \<and>
    r = last (invocations tr) \<and>
    (\<forall>k. Suc k < length (invocations tr) \<longrightarrow> retriableFailure codes (invocations tr ! k)) \<and>
    exhaustions tr =
      (if int (length (invocations tr)) = cnt + 1 - attempt \<and> retriableFailure codes r
       then exhausted_calls h rc cnt r else []) \<and>
    (exhaustions tr \<noteq> [] \<longrightarrow> last tr = OnRetryExhausted (hd (exhaustions tr))) \<and>
    (\<not> retriableFailure codes r \<longrightarrow> (\<exists>evs. last tr = Invoked r evs))"
  using assms
proof (induction "nat (cnt - attempt)" arbitrary: attempt lastError w r tr w')
  case 0
  then have eq: "attempt = cnt" by simp
  obtain x evs w1 where f: "fn w = (x, evs, w1)" by (metis surj_pair)
  show ?case
  proof (cases x)
    case (Inr v)
    with f 0 eq show ?thesis by (auto simp: loop_success)
  next
    case (Inl e)
    show ?thesis
    proof (cases "nonRetriable codes e")
      case True
      with f Inl 0 eq show ?thesis by (auto simp: loop_abort)
    next
      case False
      obtain hev w2 where c: "callHook h onRetryExhausted (RetryExhaustedContext e (cnt + 1) rc)
             (OnRetryExhausted :: _ \<Rightarrow> ('a, 'ev) retry_event) w1 = (hev, w2)"
        by (metis surj_pair)
      from callHook_cases[OF c] f Inl False 0 eq c show ?thesis
        by (auto simp: loop_last exhausted_calls_def)
    qed
  qed
next
  case (Suc n)
  then have lt: "attempt < cnt" by simp
  obtain x evs w1 where f: "fn w = (x, evs, w1)" by (metis surj_pair)
  show ?case
  proof (cases x)
    case (Inr v)
    with f Suc.prems lt show ?thesis by (auto simp: loop_success)
  next
    case (Inl e)
    show ?thesis
    proof (cases "nonRetriable codes e")
      case True
      with f Inl Suc.prems lt show ?thesis by (auto simp: loop_abort)
    next
      case False
      obtain hev w2 where c: "callHook h onRetryAttempt
             (RetryAttemptContext e (attempt + 1) (cnt + 1) (calculateRetryDelay attempt d t) rc)
             (OnRetryAttempt :: _ \<Rightarrow> ('a, 'ev) retry_event) w1 = (hev, w2)"
        by (metis surj_pair)
      obtain r2 tr2 w3 where rec: "withRetry_loop fn rc h cnt d t codes (attempt + 1) e w2 = (r2, tr2, w3)"
        by (metis surj_pair)
      have n: "n = nat (cnt - (attempt + 1))" using Suc.hyps(2) by simp
      have le: "attempt + 1 \<le> cnt" using lt by simp
      note IH = Suc.hyps(1)[OF n le rec]
      have hev: "invocations hev = [] \<and> exhaustions hev = []"
        using callHook_cases[OF c] by auto
      have tr: "tr = Invoked (Inl e) evs # hev @ Slept (calculateRetryDelay attempt d t) # tr2"
        and r: "r = r2"
        using Suc.prems(2) f Inl False lt c rec by (simp_all add: loop_retry)
      have inv: "invocations tr = Inl e # invocations tr2"
        and exh: "exhaustions tr = exhaustions tr2"
        using hev by (simp_all add: tr invocations_append exhaustions_append)
      have nth: "\<forall>k. Suc k < length (invocations tr) \<longrightarrow> retriableFailure codes (invocations tr ! k)"
      proof (intro allI impI)
        fix k assume k: "Suc k < length (invocations tr)"
        show "retriableFailure codes (invocations tr ! k)"
        proof (cases k)
          case 0
          then show ?thesis using False by (simp add: inv)
        next
          case (Suc j)
          then show ?thesis using IH k by (simp add: inv)
        qed
      qed
      have lst: "exhaustions tr \<noteq> [] \<longrightarrow> last tr = OnRetryExhausted (hd (exhaustions tr))"
        using IH exh by (auto simp: tr)
      have lst2: "\<not> retriableFailure codes r \<longrightarrow> (\<exists>evs. last tr = Invoked r evs)"
        using IH by (auto simp: tr r)
      show ?thesis using IH nth lst lst2 by (auto simp: inv exh r)
    qed
  qed
qed

lemma loop_none:
  assumes "\<not> attempt \<le> cnt"
    and "withRetry_loop (fn :: ('w, 'ev, 'a) task) rc h cnt d t codes attempt lastError w = (r, tr, w')"
  shows "invocations tr = []"
proof -
  obtain hev w2 where c: "callHook h onRetryExhausted (RetryExhaustedContext lastError (cnt + 1) rc)
             (OnRetryExhausted :: _ \<Rightarrow> ('a, 'ev) retry_event) w = (hev, w2)"
    by (metis surj_pair)
  from callHook_cases[OF c] assms c show ?thesis by (auto simp: loop_exit)
qed

lemma withRetry_once:
  "Option.bind retryConfig count = None \<or> Option.bind retryConfig count = Some 0 \<Longrightarrow>
   withRetry defaults fn retryConfig h w = (case fn w of (r0, evs, w1) \<Rightarrow> (r0, [Invoked r0 evs], w1))"
  by (auto simp: withRetry_def split: option.splits)

lemma withRetry_loop_eq:
  "count rc = Some n \<Longrightarrow> n \<noteq> 0 \<Longrightarrow>
   withRetry defaults fn (Some rc) h w =
     withRetry_loop fn rc h n (case delay rc of Some d \<Rightarrow> d | None \<Rightarrow> retry_delay defaults)
       (case type rc of Some t \<Rightarrow> t | None \<Rightarrow> retry_type defaults)
       (retriableStatusCodes defaults rc) 0 (Thrown Undefined) w"
  by (simp add: withRetry_def)

subsection \<open>Example runs\<close>





lemma run_forbidden_first:
  "withRetry example_defaults forbidden_first (Some retry_thrice) (Some silent_hooks) 0 =
     (Inl (HttpError ''HTTP error 403'' 403), [Invoked (Inl (HttpError ''HTTP error 403'' 403)) []], 1)"
  by (simp add: withRetry_def withRetry_loop.simps forbidden_first_def scripted_def
      retry_thrice_def retriableStatusCodes_def example_defaults_def)

subsection \<open>The contract of the wrapper\<close>




text \<open>
  C5. In a call of \<open>withRetry\<close> with a retry configuration, if a call of the action
  fails with an \<open>HttpError\<close> whose status is not in the retriable set, that call is the
  last one whatever the count, the error is the outcome of the wrapper, nothing follows
  the call in the trace (no hook, no sleep), and \<open>onRetryExhausted\<close> is not called.
\<close>

theorem withRetry_non_retriable_status:
  assumes run: "withRetry defaults fn (Some rc) hooks' w = (r, tr, w')"
    and k: "k < length (invocations tr)"
    and failed: "invocations tr ! k = Inl (HttpError m s)"
    and status: "s \<notin> set (retriableStatusCodes defaults rc)"
  shows "length (invocations tr) = Suc k \<and> r = Inl (HttpError m s) \<and>
         (\<exists>evs. last tr = Invoked (Inl (HttpError m s)) evs) \<and> exhaustions tr = []"
proof (cases "count rc = None \<or> count rc = Some 0")
  case True
  then have "Option.bind (Some rc) count = None \<or> Option.bind (Some rc) count = Some 0" by simp
  from withRetry_once[OF this, where defaults=defaults and fn=fn and h=hooks' and w=w] run
  have "(r, tr, w') = (case fn w of (r0, evs, w1) \<Rightarrow> (r0, [Invoked r0 evs], w1))" by simp
  with k failed show ?thesis by (auto split: prod.splits)
next
  case False
  then obtain n where n: "count rc = Some n" "n \<noteq> 0" by auto
  let ?codes = "retriableStatusCodes defaults rc"
  from n run have loop: "withRetry_loop fn rc hooks' n
       (case delay rc of Some d \<Rightarrow> d | None \<Rightarrow> retry_delay defaults)
       (case type rc of Some t \<Rightarrow> t | None \<Rightarrow> retry_type defaults)
       ?codes 0 (Thrown Undefined) w = (r, tr, w')"
    by (simp add: withRetry_loop_eq)
  have le: "(0::int) \<le> n"
  proof (rule ccontr)
    assume "\<not> 0 \<le> n"
    from loop_none[OF this loop] k show False by simp
  qed
  note S = loop_shape[OF le loop]
  have "\<not> retriableFailure ?codes (invocations tr ! k)"
    using failed status by simp
  with S have "\<not> Suc k < length (invocations tr)" by blast
  with k have len: "length (invocations tr) = Suc k" by simp
  with S failed have r: "r = Inl (HttpError m s)" by (simp add: last_conv_nth)
  with status have nr: "\<not> retriableFailure ?codes r" by simp
  with S have "\<exists>evs. last tr = Invoked r evs" by blast
  moreover from S nr have "exhaustions tr = []" by simp
  ultimately show ?thesis using len r by simp
qed

text \<open>With count 3 and the default retriable set, a first call that fails with status
  403 is the only call.\<close>

theorem withRetry_non_retriable_status_witness:
  "403 \<notin> set (retriableStatusCodes example_defaults retry_thrice) \<and>
   invocations (fst (snd
     (withRetry example_defaults forbidden_first (Some retry_thrice) (Some silent_hooks) 0))) =
     [Inl (HttpError ''HTTP error 403'' 403)] \<and>
   fst (withRetry example_defaults forbidden_first (Some retry_thrice) (Some silent_hooks) 0) =
     Inl (HttpError ''HTTP error 403'' 403) \<and>
   exhaustions (fst (snd
     (withRetry example_defaults forbidden_first (Some retry_thrice) (Some silent_hooks) 0))) = []"
proof -
  have codes: "403 \<notin> set (retriableStatusCodes example_defaults retry_thrice)"
    by (simp add: retriableStatusCodes_def retry_thrice_def example_defaults_def)
  have k: "0 < length (invocations ([Invoked (Inl (HttpError ''HTTP error 403'' 403)) []]
             :: (jsvalue, call) retry_event list))"
    by simp
  have f: "invocations ([Invoked (Inl (HttpError ''HTTP error 403'' 403)) []]
             :: (jsvalue, call) retry_event list) ! 0 = Inl (HttpError ''HTTP error 403'' 403)"
    by simp
  from withRetry_non_retriable_status [OF run_forbidden_first k f codes] codes
  show ?thesis by (simp add: run_forbidden_first)
qed

section \<open>Properties of the pool selector\<close>

text \<open>
  C9. \<open>getRandomFrom\<close> on an absent or an empty collection yields nothing and leaves
  the world as it is (\<^verbatim>\<open>Math.random\<close> is not called). When \<^verbatim>\<open>Math.random()\<close> returns a
  number in \<open>[0, 1)\<close>, as it always does, the selector on a singleton yields its element,
  and on any non-empty collection yields a member of the collection.
\<close>

theorem getRandomFrom_selects:
  "getRandomFrom E (None :: 'a list option) w = (None, w) \<and>
   getRandomFrom E (Some ([] :: 'a list)) w = (None, w) \<and>
   (0 \<le> fst (Math_random E w) \<and> fst (Math_random E w) < 1 \<longrightarrow>
      fst (getRandomFrom E (Some [x :: 'a]) w) = Some x \<and>
      ((xs :: 'a list) \<noteq> [] \<longrightarrow> (\<exists>y \<in> set xs. fst (getRandomFrom E (Some xs) w) = Some y)))"
proof -
  have pick: "\<exists>y \<in> set ys. fst (getRandomFrom E (Some ys) w) = Some y"
    if r: "0 \<le> fst (Math_random E w)" "fst (Math_random E w) < 1" and ne: "ys \<noteq> []"
    for ys :: "'a list"
  proof -
    let ?r = "fst (Math_random E w)"
    let ?i = "\<lfloor>?r * real (length ys)\<rfloor>"
    have pos: "0 < real (length ys)" using ne by simp
    have "0 \<le> ?r * real (length ys)" using r(1) by simp
    then have lo: "0 \<le> ?i" by (simp only: zero_le_floor)
    have "?r * real (length ys) < real (length ys)"
      using r(2) pos by simp
    then have hi: "?i < int (length ys)" by (simp add: floor_less_iff)
    from lo hi have "nat ?i < length ys" by linarith
    then have mem: "ys ! nat ?i \<in> set ys" by (rule nth_mem)
    obtain r0 w1 where m: "Math_random E w = (r0, w1)" by (metis surj_pair)
    have "fst (getRandomFrom E (Some ys) w) = Some (ys ! nat ?i)"
      using lo hi ne by (simp add: getRandomFrom_def Let_def m)
    with mem show ?thesis by blast
  qed
  have single: "fst (getRandomFrom E (Some [x]) w) = Some x"
    if r: "0 \<le> fst (Math_random E w)" "fst (Math_random E w) < 1"
    using pick[OF r, of "[x]"] by simp
  show ?thesis using pick single by (simp add: getRandomFrom_def)
qed

text \<open>
  With \<^verbatim>\<open>Math.random()\<close> returning 0.5, the selector takes \<open>a\<close> from \<open>[a]\<close> and
  \<open>b\<close> from \<open>[a, b, c]\<close>.
\<close>

theorem getRandomFrom_selects_witness:
  "fst (Math_random offline 0) = 1 / 2 \<and>
   fst (getRandomFrom offline (Some [''a'']) 0) = Some ''a'' \<and>
   fst (getRandomFrom offline (Some three_items) 0) = Some ''b'' \<and>
   ''b'' \<in> set three_items"
proof -
  have r: "0 \<le> fst (Math_random offline 0) \<and> fst (Math_random offline 0) < 1"
    by (simp add: offline_def example_env_def)
  have ne: "three_items \<noteq> []" by (simp add: three_items_def)
  from getRandomFrom_selects [of offline 0 "''a''" three_items, THEN conjunct2, THEN conjunct2] r ne
  show ?thesis
    by (simp add: getRandomFrom_def offline_def example_env_def three_items_def)
qed

section \<open>Properties of the custom mechanism\<close>





lemma executeStrategy_withRetry:
  "\<exists>options' w0.
     executeStrategy E defaults url config strategy w =
       withRetry defaults (executeMechanism E defaults url config strategy options')
         (Option.bind (options config) retries) (hooks config) w0"
  by (auto simp: executeStrategy_def Let_def split: prod.splits)





section \<open>Properties of the browser mechanism\<close>





lemma run_browser_accepted:
  "executeBrowserMechanism example_site example_defaults ''https://example.com/missing''
     (example_config [browser_strategy] None None None) no_options 0 =
     (Inr (ScrapeResultBrowser (Page 2) (PlaywrightResponse 404) (CloseContext (BrowserContext 1))),
      [GetBrowser chromium, NewContext (BrowserContext 1), NewPage (Page 2),
       Goto (Page 2) ''https://example.com/missing''],
      4)"
  by (simp add: executeBrowserMechanism_def executeBrowserMechanism_try_def createContext_def
      createPage_def example_site_def example_env_def example_config_def example_defaults_def
      no_options_def validationFails_def site_status_def truthy_string_def)


section \<open>Properties of the status check\<close>

lemma checkStatus_Inr:
  "checkStatus st result = Inr result' \<Longrightarrow> result' = result \<and> (\<forall>s. st = Some s \<longrightarrow> 200 \<le> s \<and> s < 300)"
  by (auto simp: checkStatus_def split: option.splits if_splits)

lemma executeMechanism_Inr:
  assumes "fst (executeMechanism E defaults url config strategy options' w) = Inr result"
  shows "\<forall>s. status_of result = Some s \<longrightarrow> 200 \<le> s \<and> s < 300"
proof (cases "mechanism strategy")
  case Fetch
  obtain x tr w1 where f: "executeFetchMechanism E url config options' w = (x, tr, w1)"
    by (metis surj_pair)
  show ?thesis
  proof (cases x)
    case (Inl e) with assms Fetch f show ?thesis by (simp add: executeMechanism_def)
  next
    case (Inr y)
    obtain response html where y: "y = ScrapeResultFetch response html" by (cases y) auto
    from assms Fetch f Inr y
    have "checkStatus (Some (status response)) (ResultFetch (ScrapeResultFetch response html)) = Inr result"
      by (simp add: executeMechanism_def)
    from checkStatus_Inr[OF this] show ?thesis by auto
  qed
next
  case Browser
  obtain x tr w1 where f: "executeBrowserMechanism E defaults url config options' w = (x, tr, w1)"
    by (metis surj_pair)
  show ?thesis
  proof (cases x)
    case (Inl e) with assms Browser f show ?thesis by (simp add: executeMechanism_def)
  next
    case (Inr y)
    obtain page response cleanup where y: "y = ScrapeResultBrowser page response cleanup" by (cases y) auto
    from assms Browser f Inr y
    have "checkStatus (Some (pw_status response)) (ResultBrowser (ScrapeResultBrowser page response cleanup)) = Inr result"
      by (simp add: executeMechanism_def)
    from checkStatus_Inr[OF this] show ?thesis by auto
  qed
next
  case Custom
  obtain x tr w1 where f: "executeCustomMechanism url config options' w = (x, tr, w1)"
    by (metis surj_pair)
  from assms Custom f show ?thesis
    by (cases x) (auto simp: executeMechanism_def checkStatus_def)
qed

lemma loop_Inr:
  assumes "withRetry_loop (fn :: ('w, 'ev, 'a) task) rc h cnt d t codes attempt lastError w = (Inr v, tr, w')"
  shows "\<exists>w0. fst (fn w0) = Inr v"
  using assms
proof (induction "nat (cnt + 1 - attempt)" arbitrary: attempt lastError w tr w')
  case 0
  then have "\<not> attempt \<le> cnt" by simp
  with 0(2) show ?case by (simp add: loop_exit split: prod.splits)
next
  case (Suc n)
  then have le: "attempt \<le> cnt" by simp
  obtain x evs w1 where f: "fn w = (x, evs, w1)" by (metis surj_pair)
  show ?case
  proof (cases x)
    case (Inr v')
    with f Suc.prems le have "v' = v" by (simp add: loop_success)
    with f Inr show ?thesis by (metis fst_conv)
  next
    case (Inl e)
    show ?thesis
    proof (cases "nonRetriable codes e")
      case True
      with f Inl Suc.prems le show ?thesis by (simp add: loop_abort)
    next
      case False
      show ?thesis
      proof (cases "attempt < cnt")
        case True
        obtain hev w2 where c: "callHook h onRetryAttempt
             (RetryAttemptContext e (attempt + 1) (cnt + 1) (calculateRetryDelay attempt d t) rc)
             (OnRetryAttempt :: _ \<Rightarrow> ('a, 'ev) retry_event) w1 = (hev, w2)"
          by (metis surj_pair)
        obtain r2 tr2 w3 where rec: "withRetry_loop fn rc h cnt d t codes (attempt + 1) e w2 = (r2, tr2, w3)"
          by (metis surj_pair)
        have n: "n = nat (cnt + 1 - (attempt + 1))" using Suc.hyps(2) by simp
        from Suc.prems f Inl False True c rec have "r2 = Inr v" by (simp add: loop_retry)
        with rec Suc.hyps(1)[OF n] show ?thesis by blast
      next
        case False
        with le have eq: "attempt = cnt" by simp
        from Suc.prems f Inl \<open>\<not> nonRetriable codes e\<close> eq show ?thesis
          by (simp add: loop_last split: prod.splits)
      qed
    qed
  qed
qed

lemma withRetry_Inr:
  assumes "withRetry defaults fn retryConfig h w = (Inr v, tr, w')"
  shows "\<exists>w0. fst (fn w0) = Inr v"
proof (cases "Option.bind retryConfig count = None \<or> Option.bind retryConfig count = Some 0")
  case True
  from withRetry_once[OF True, where defaults=defaults and fn=fn and h=h and w=w] assms
  have "fst (fn w) = Inr v" by (auto split: prod.splits)
  then show ?thesis by blast
next
  case False
  then obtain rc n where rc: "retryConfig = Some rc" "count rc = Some n" "n \<noteq> 0"
    by (cases retryConfig) auto
  with assms show ?thesis by (auto simp: withRetry_loop_eq dest: loop_Inr)
qed

lemma executeStrategy_Inr:
  assumes "executeStrategy E defaults url config strategy w = (Inr result, tr, w')"
  shows "\<forall>s. status_of result = Some s \<longrightarrow> 200 \<le> s \<and> s < 300"
proof -
  obtain options' w0 where
    "executeStrategy E defaults url config strategy w =
       withRetry defaults (executeMechanism E defaults url config strategy options')
         (Option.bind (options config) retries) (hooks config) w0"
    using executeStrategy_withRetry[of E defaults url config strategy w] by blast
  with assms withRetry_Inr obtain w1 where
    "fst (executeMechanism E defaults url config strategy options' w1) = Inr result"
    by metis
  from executeMechanism_Inr[OF this] show ?thesis .
qed

lemma scrape_loop_Inr:
  "scrape_loop E defaults url config ss index rest w = (Inr result, tr, w') \<Longrightarrow>
   \<forall>s. status_of result = Some s \<longrightarrow> 200 \<le> s \<and> s < 300"
proof (induction rest arbitrary: index w tr w')
  case Nil
  then show ?case by simp
next
  case (Cons strategy rest)
  obtain x tr1 w1 where e: "executeStrategy E defaults url config strategy w = (x, tr1, w1)"
    by (metis surj_pair)
  show ?case
  proof (cases x)
    case (Inr result')
    with Cons.prems e have "result' = result" by simp
    with e Inr have "executeStrategy E defaults url config strategy w = (Inr result, tr1, w1)"
      by simp
    then show ?thesis by (rule executeStrategy_Inr)
  next
    case (Inl err)
    with Cons.prems e Cons.IH show ?thesis
      by (auto split: prod.splits if_splits)
  qed
qed

text \<open>
  C10. When the fetch executor, or the browser executor, has returned its result, so
  that the validator if any has accepted the response, and the status of the response
  is outside 200 to 299, \<open>executeMechanism\<close> fails with the \<open>HttpError\<close> that carries the
  status; the retry wrapper classifies such an error by the membership of its status in
  the retriable set. Hence every result that \<open>scrape\<close> returns with a status (a fetch or
  a browser result) has a status from 200 to 299. A result of the custom executor is
  returned as it is, with no check.
\<close>

theorem executeMechanism_status_check:
  "(mechanism strategy = Fetch \<and>
    executeFetchMechanism E url config options' w = (Inr (ScrapeResultFetch response html), tr, w1) \<and>
    (status response < 200 \<or> 300 \<le> status response) \<longrightarrow>
      executeMechanism E defaults url config strategy options' w =
        (Inl (HttpError (''HTTP error '' @ string_of_nat (status response)) (status response)), tr, w1)) \<and>
   (mechanism strategy = Browser \<and>
    executeBrowserMechanism E defaults url config options' w =
      (Inr (ScrapeResultBrowser page response' cleanup), tr, w1) \<and>
    (pw_status response' < 200 \<or> 300 \<le> pw_status response') \<longrightarrow>
      executeMechanism E defaults url config strategy options' w =
        (Inl (HttpError (''HTTP error '' @ string_of_nat (pw_status response')) (pw_status response')),
         tr, w1)) \<and>
   (nonRetriable codes (HttpError m s) \<longleftrightarrow> s \<notin> set codes) \<and>
   (scrape E defaults url config w = (Inr result, tr', w') \<longrightarrow>
      (\<forall>s. status_of result = Some s \<longrightarrow> 200 \<le> s \<and> s < 300)) \<and>
   (mechanism strategy = Custom \<and>
    executeCustomMechanism url config options' w = (Inr custom_result, tr, w1) \<longrightarrow>
      executeMechanism E defaults url config strategy options' w =
        (Inr (ResultCustom custom_result), tr, w1))"
proof -
  have sc: "scrape E defaults url config w = (Inr result, tr', w') \<longrightarrow>
      (\<forall>s. status_of result = Some s \<longrightarrow> 200 \<le> s \<and> s < 300)"
    by (auto simp: scrape_def split: option.splits if_splits dest: scrape_loop_Inr)
  show ?thesis
    using sc by (simp add: executeMechanism_def checkStatus_def)
qed

lemma run_fetch_missing:
  "executeFetchMechanism example_site ''https://example.com/missing''
     (example_config [fetch_strategy] None None None) no_options 0 =
     (Inr (ScrapeResultFetch \<lparr>status = 404, text_body = Inr ''<html></html>''\<rparr> ''<html></html>''),
      [FetchCall ''https://example.com/missing'' no_options], 1)"
  by (simp add: executeFetchMechanism_def example_site_def example_env_def example_config_def
      validationFails_def site_status_def)

lemma run_scrape_ok:
  "scrape example_site example_defaults ''https://example.com/ok''
     (example_config [fetch_strategy] None None None) 0 =
     (Inr (ResultFetch (ScrapeResultFetch \<lparr>status = 200, text_body = Inr ''<html></html>''\<rparr>
             ''<html></html>'')),
      [Executed 0 fetch_strategy
         (Inr (ResultFetch (ScrapeResultFetch \<lparr>status = 200, text_body = Inr ''<html></html>''\<rparr>
             ''<html></html>'')))
         [Invoked
            (Inr (ResultFetch (ScrapeResultFetch \<lparr>status = 200, text_body = Inr ''<html></html>''\<rparr>
                ''<html></html>'')))
            [FetchCall ''https://example.com/ok'' no_options]]],
      1)"
  by (simp add: scrape_def executeStrategy_def withRetry_def executeMechanism_def checkStatus_def
      getRandomFrom_def executeFetchMechanism_def example_site_def example_env_def
      example_config_def validationFails_def site_status_def fetch_strategy_def no_options_def)

lemma string_of_nat_404: "string_of_nat 404 = ''404''"
  by (simp add: string_of_nat.simps)

lemma run_custom_payload:
  "executeCustomMechanism ''https://example.com/missing''
     (example_config [custom_strategy] None None (Some (returns (String ''payload'')))) no_options 0 =
     (Inr (ScrapeResultCustom (String ''payload'')),
      [CustomCall ''https://example.com/missing'' no_options], 1)"
  by (simp add: executeCustomMechanism_def example_config_def returns_def validationFails_def)

text \<open>
  A page that answers 404 fails with \<open>HttpError\<close> 404 under both mechanisms; a
  page that answers 200 is returned by \<open>scrape\<close>; a custom payload is returned unchecked.
\<close>

theorem executeMechanism_status_check_witness:
  "mechanism fetch_strategy = Fetch \<and>
   executeMechanism example_site example_defaults ''https://example.com/missing''
     (example_config [fetch_strategy] None None None) fetch_strategy no_options 0 =
     (Inl (HttpError ''HTTP error 404'' 404), [FetchCall ''https://example.com/missing'' no_options], 1) \<and>
   mechanism browser_strategy = Browser \<and>
   fst (executeMechanism example_site example_defaults ''https://example.com/missing''
     (example_config [browser_strategy] None None None) browser_strategy no_options 0) =
     Inl (HttpError ''HTTP error 404'' 404) \<and>
   status_of (ResultFetch (ScrapeResultFetch \<lparr>status = 200, text_body = Inr ''<html></html>''\<rparr>
     ''<html></html>'')) = Some 200 \<and>
   mechanism custom_strategy = Custom \<and>
   fst (executeMechanism example_site example_defaults ''https://example.com/missing''
     (example_config [custom_strategy] None None (Some (returns (String ''payload''))))
     custom_strategy no_options 0) =
     Inr (ResultCustom (ScrapeResultCustom (String ''payload'')))"
proof -
  have mf: "mechanism fetch_strategy = Fetch" and mb: "mechanism browser_strategy = Browser"
    and mc: "mechanism custom_strategy = Custom"
    by (simp_all add: fetch_strategy_def browser_strategy_def custom_strategy_def)
  note T1 = executeMechanism_status_check [where strategy = fetch_strategy and E = example_site
      and url = "''https://example.com/missing''" and w = 0 and defaults = example_defaults
      and config = "example_config [fetch_strategy] None None None" and options' = no_options,
      THEN conjunct1, rule_format, OF conjI, OF mf conjI, OF run_fetch_missing]
  note T2 = executeMechanism_status_check [where strategy = browser_strategy and E = example_site
      and url = "''https://example.com/missing''" and w = 0 and defaults = example_defaults
      and config = "example_config [browser_strategy] None None None" and options' = no_options,
      THEN conjunct2, THEN conjunct1, rule_format, OF conjI, OF mb conjI, OF run_browser_accepted]
  note T3 = executeMechanism_status_check [THEN conjunct2, THEN conjunct2, THEN conjunct2,
      THEN conjunct1, rule_format, OF run_scrape_ok, of 200]
  note T4 = executeMechanism_status_check [where strategy = custom_strategy and E = example_site
      and url = "''https://example.com/missing''" and w = 0 and defaults = example_defaults
      and config = "example_config [custom_strategy] None None (Some (returns (String ''payload'')))"
      and options' = no_options,
      THEN conjunct2, THEN conjunct2, THEN conjunct2, THEN conjunct2, rule_format, OF conjI,
      OF mc run_custom_payload]
  from T1 T2 T3 T4 mf mb mc show ?thesis
    by (simp add: string_of_nat_404)
qed

section \<open>Properties of the cascade\<close>














end
